theory Spec2Isabelle
  imports Main "HOL-Library.Sublist"
begin

section \<open>Values exchanged with the server\<close>

text \<open>
  JSON values as Python's \<^verbatim>\<open>json\<close> module hands them over: \<^verbatim>\<open>None\<close> is \<open>JNull\<close>, a
  \<^verbatim>\<open>dict\<close> is an association list read with \<open>map_of\<close>. Numbers are integers here;
  no property below looks inside one.
\<close>

datatype json =
    JNull
  | JBool bool
  | JNum int
  | JStr string
  | JArr "json list"
  | JObj "(string \<times> json) list"

subsection \<open>Strings\<close>

text \<open>
  \<^verbatim>\<open>str.lower()\<close> on the ASCII range. The only use compares the result with
  \<^verbatim>\<open>"true"\<close>, and no character outside ASCII lowers to one of t, r, u, e.
\<close>

definition lower_char :: "char \<Rightarrow> char" where
  "lower_char c =
     (case map_of (zip ''ABCDEFGHIJKLMNOPQRSTUVWXYZ'' ''abcdefghijklmnopqrstuvwxyz'') c of
        Some l \<Rightarrow> l
      | None \<Rightarrow> c)"

definition lower :: "string \<Rightarrow> string" where
  "lower s = map lower_char s"

text \<open>Python's \<^verbatim>\<open>needle in haystack\<close> on two strings.\<close>

fun str_contains :: "string \<Rightarrow> string \<Rightarrow> bool" where
  "str_contains needle [] = (needle = [])"
| "str_contains needle (c # cs) = (prefix needle (c # cs) \<or> str_contains needle cs)"

text \<open>\<^verbatim>\<open>sep.join(parts)\<close>.\<close>

fun join :: "string \<Rightarrow> string list \<Rightarrow> string" where
  "join sep [] = []"
| "join sep [x] = x"
| "join sep (x # y # ys) = x @ sep @ join sep (y # ys)"

subsection \<open>httpx.Headers and httpx.QueryParams\<close>

text \<open>
  \<^verbatim>\<open>httpx.Headers\<close> is a list of (key, value) pairs. Keys are compared in lower case;
  reading a key that occurs several times gives the values joined by \<^verbatim>\<open>", "\<close>.
  \<^verbatim>\<open>h[key]\<close> raises \<^verbatim>\<open>KeyError\<close> on a missing key (\<open>None\<close> here), \<^verbatim>\<open>h.get(key)\<close>
  returns \<^verbatim>\<open>None\<close> then.
\<close>

type_synonym Headers = "(string \<times> string) list"
type_synonym QueryParams = "(string \<times> string) list"

definition headers_values :: "Headers \<Rightarrow> string \<Rightarrow> string list" where
  "headers_values h key = map snd (filter (\<lambda>kv. lower (fst kv) = lower key) h)"

definition headers_contains :: "Headers \<Rightarrow> string \<Rightarrow> bool" where
  "headers_contains h key = (lower key \<in> set (map (\<lambda>kv. lower (fst kv)) h))"

definition headers_getitem :: "Headers \<Rightarrow> string \<Rightarrow> string option" where
  "headers_getitem h key =
     (case headers_values h key of [] \<Rightarrow> None | vs \<Rightarrow> Some (join '', '' vs))"

definition headers_get :: "Headers \<Rightarrow> string \<Rightarrow> string option" where
  "headers_get h key = headers_getitem h key"

subsection \<open>Requests, responses, errors\<close>

text \<open>
  Modelled from the spec: the enumeration \<^verbatim>\<open>RequestMethod\<close> is missing from the sources;
  the HTTP methods of a pending request are GET, POST, PATCH and DELETE.
\<close>

datatype RequestMethod = GET | POST | PATCH | DELETE

text \<open>What \<^verbatim>\<open>session.request(method, path, json=, params=, headers=)\<close> receives.\<close>

record http_request =
  req_method :: RequestMethod
  req_path :: string
  req_json :: json
  req_params :: QueryParams
  req_headers :: Headers

text \<open>
  The \<^verbatim>\<open>httpx.Response\<close> as \<^verbatim>\<open>execute\<close> reads it: \<open>response_text\<close> is the body as
  received, \<open>response_json\<close> the result of \<^verbatim>\<open>r.json()\<close>, \<open>None\<close> when the body is not
  valid JSON and the call raises \<^verbatim>\<open>JSONDecodeError\<close>.
\<close>

record response =
  status_code :: int
  response_text :: string
  response_json :: "json option"
  response_headers :: Headers

text \<open>
  Modelled from the spec: the fields of the class \<^verbatim>\<open>APIError\<close> (module \<^verbatim>\<open>exceptions\<close>,
  missing from the sources), each a string or absent.
\<close>

record api_error =
  message :: "string option"
  code :: "string option"
  hint :: "string option"
  details :: "string option"

text \<open>
  The exceptions that travel through \<^verbatim>\<open>execute\<close>. Python's \<^verbatim>\<open>JSONDecodeError\<close> keeps
  the document it could not parse (its attribute \<^verbatim>\<open>doc\<close>), which is the argument here;
  the parser's own message is not modelled. \<open>AttributeError\<close> is what reading a field
  of a value that has none raises. \<open>OtherError\<close> stands for whatever the HTTP client
  raises itself (network, timeout).
\<close>

datatype exn =
    APIError api_error
  | ValidationError
  | JSONDecodeError string
  | AttributeError
  | UnboundLocalError
  | OtherError string

text \<open>
  Modelled from the spec: the fields of the class \<^verbatim>\<open>APIResponse\<close> (module
  \<^verbatim>\<open>base_request_builder\<close>, missing from the sources): the data (null when there is
  none), an optional count, an optional error.
\<close>

record APIResponse =
  data :: json
  count :: "int option"
  error :: "api_error option"

text \<open>
  Modelled from the spec: reading one field of the error body, for the constructor of
  \<^verbatim>\<open>APIError\<close> (module \<^verbatim>\<open>exceptions\<close>, missing from the sources). The body is a JSON
  object, given as its list of members. The field is the string stored under the key;
  it is absent when the key is missing (or holds null or another value that is no
  string field), and an empty string stays an empty string.
\<close>

definition error_field :: "(string \<times> json) list \<Rightarrow> string \<Rightarrow> string option" where
  "error_field kvs key = (case map_of kvs key of Some (JStr s) \<Rightarrow> Some s | _ \<Rightarrow> None)"

text \<open>
  Modelled from the spec: the constructor of \<^verbatim>\<open>APIError\<close> (module \<^verbatim>\<open>exceptions\<close>,
  missing from the sources) is given a JSON object and reads \<^verbatim>\<open>message\<close>, \<^verbatim>\<open>code\<close>,
  \<^verbatim>\<open>hint\<close> and \<^verbatim>\<open>details\<close> from it.
\<close>

definition APIError_init :: "(string \<times> json) list \<Rightarrow> api_error" where
  "APIError_init kvs =
     \<lparr> message = error_field kvs ''message'',
       code = error_field kvs ''code'',
       hint = error_field kvs ''hint'',
       details = error_field kvs ''details'' \<rparr>"

text \<open>
  Modelled from the spec: what \<^verbatim>\<open>raise APIError(body)\<close> raises. The error is constructed
  from a JSON object and from nothing else; for a body that is valid JSON but no object
  (a list, a string, a number, null) the field reads of the constructor fail, and that
  failure is raised in place of an \<^verbatim>\<open>APIError\<close>.
\<close>

definition APIError_raised :: "json \<Rightarrow> exn" where
  "APIError_raised body =
     (case body of JObj kvs \<Rightarrow> APIError (APIError_init kvs) | _ \<Rightarrow> AttributeError)"

text \<open>
  Modelled from the spec: \<^verbatim>\<open>APIResponse.from_dict\<close> (module \<^verbatim>\<open>base_request_builder\<close>) is
  missing from the sources. The envelope takes its three fields from the keys
  \<^verbatim>\<open>data\<close>, \<^verbatim>\<open>count\<close> and \<^verbatim>\<open>error\<close> of the dictionary; \<^verbatim>\<open>None\<close> stays null or absent.
\<close>

definition from_dict :: "(string \<times> json) list \<Rightarrow> APIResponse" where
  "from_dict d =
     \<lparr> data = (case map_of d ''data'' of Some j \<Rightarrow> j | None \<Rightarrow> JNull),
       count = (case map_of d ''count'' of Some (JNum n) \<Rightarrow> Some n | _ \<Rightarrow> None),
       error = (case map_of d ''error'' of Some (JObj kvs) \<Rightarrow> Some (APIError_init kvs)
                | _ \<Rightarrow> None) \<rparr>"

text \<open>
  Modelled from the spec: \<^verbatim>\<open>APIResponse.from_http_request_response\<close> (module
  \<^verbatim>\<open>base_request_builder\<close>) is missing from the sources. It parses the body as JSON; when
  parsing fails, the failure propagates as the error built from the unparsed raw
  response, its message the raw body, and never as an empty result. What it builds from
  a body that does parse (the data, the count from the range header) is the parameter
  \<open>build\<close>: no property below depends on it.
\<close>

definition from_http_request_response ::
  "(response \<Rightarrow> json \<Rightarrow> exn + APIResponse) \<Rightarrow> response \<Rightarrow> exn + APIResponse" where
  "from_http_request_response build r =
     (case response_json r of
        None \<Rightarrow> Inl (APIError \<lparr> message = Some (response_text r), code = None, hint = None,
                                  details = None \<rparr>)
      | Some body \<Rightarrow> build r body)"

section \<open>The interpreter state\<close>

text \<open>
  \<^verbatim>\<open>Headers\<close> and \<^verbatim>\<open>QueryParams\<close> are mutable objects that builders hold by reference, so
  they live in a store and a builder holds an address. The session (the one HTTP client
  all builders of a client share) is part of the state too: \<open>transport\<close> is what the
  client answers (or raises) for a request, \<open>sent\<close> the requests handed to it so far.
\<close>

record world =
  hdr_objs :: "nat \<Rightarrow> Headers"
  par_objs :: "nat \<Rightarrow> QueryParams"
  next_ref :: nat
  transport :: "http_request \<Rightarrow> exn + response"
  sent :: "http_request list"

definition new_Headers :: "Headers \<Rightarrow> world \<Rightarrow> nat \<times> world" where
  "new_Headers h w =
     (next_ref w, w\<lparr> hdr_objs := (hdr_objs w)(next_ref w := h), next_ref := Suc (next_ref w) \<rparr>)"

definition new_QueryParams :: "QueryParams \<Rightarrow> world \<Rightarrow> nat \<times> world" where
  "new_QueryParams p w =
     (next_ref w, w\<lparr> par_objs := (par_objs w)(next_ref w := p), next_ref := Suc (next_ref w) \<rparr>)"

definition session_request :: "http_request \<Rightarrow> world \<Rightarrow> (exn + response) \<times> world" where
  "session_request req w = (transport w req, w\<lparr> sent := sent w @ [req] \<rparr>)"

section \<open>request\_builder.py\<close>

text \<open>
  The fields that \<^verbatim>\<open>AsyncQueryRequestBuilder.__init__\<close> and \<^verbatim>\<open>AsyncQueryFactory.__init__\<close>
  both store (the session is the state's).
\<close>

record query_fields =
  path :: string
  http_method :: RequestMethod
  headers :: nat
  params :: nat
  json :: json

subsection \<open>AsyncQueryRequestBuilder.execute\<close>

text \<open>
  \<^verbatim>\<open>raise APIError(r.json())\<close>: \<^verbatim>\<open>r.json()\<close> is evaluated first and may raise itself.
\<close>

definition raise_APIError :: "response \<Rightarrow> exn + APIResponse" where
  "raise_APIError r =
     (case response_json r of
        None \<Rightarrow> Inl (JSONDecodeError (response_text r))
      | Some body \<Rightarrow> Inl (APIError_raised body))"

text \<open>
  The \<^verbatim>\<open>try\<close> statement of \<^verbatim>\<open>execute\<close>. \<^verbatim>\<open>APIResponse.from_http_request_response\<close> is
  missing from the sources and is the parameter \<open>fhrr\<close>: any function from the response
  to an envelope or an exception, \<open>from_http_request_response build\<close> where a property
  needs what the specification says of it. Only a \<^verbatim>\<open>ValidationError\<close> is caught.
\<close>

definition execute_try :: "(response \<Rightarrow> exn + APIResponse) \<Rightarrow> response \<Rightarrow> exn + APIResponse" where
  "execute_try fhrr r =
     (if 200 \<le> status_code r \<and> status_code r \<le> 299 then
        (case fhrr r of
           Inl ValidationError \<Rightarrow> raise_APIError r
         | Inl e \<Rightarrow> Inl e
         | Inr res \<Rightarrow> Inr res)
      else raise_APIError r)"

definition request_of :: "query_fields \<Rightarrow> world \<Rightarrow> http_request" where
  "request_of b w =
     \<lparr> req_method = http_method b, req_path = path b, req_json = json b,
       req_params = par_objs w (params b), req_headers = hdr_objs w (headers b) \<rparr>"

definition AsyncQueryRequestBuilder_execute ::
  "(response \<Rightarrow> exn + APIResponse) \<Rightarrow> query_fields \<Rightarrow> world \<Rightarrow> (exn + APIResponse) \<times> world" where
  "AsyncQueryRequestBuilder_execute fhrr b w =
     (case session_request (request_of b w) w of
        (Inl e, w') \<Rightarrow> (Inl e, w')
      | (Inr r, w') \<Rightarrow> (execute_try fhrr r, w'))"

subsection \<open>AsyncMaybeSingleRequestBuilder.execute\<close>

text \<open>\<^verbatim>\<open>e.details and "Results contain 0 rows" in e.details\<close>.\<close>

definition zero_rows_signal :: "api_error \<Rightarrow> bool" where
  "zero_rows_signal e =
     (case details e of
        None \<Rightarrow> False
      | Some d \<Rightarrow> d \<noteq> [] \<and> str_contains ''Results contain 0 rows'' d)"

text \<open>
  An \<^verbatim>\<open>APIError\<close> that does not carry the signal leaves the \<^verbatim>\<open>except\<close> block handled;
  control reaches \<^verbatim>\<open>return r\<close> with \<^verbatim>\<open>r\<close> never assigned.
\<close>

definition AsyncMaybeSingleRequestBuilder_execute ::
  "(response \<Rightarrow> exn + APIResponse) \<Rightarrow> query_fields \<Rightarrow> world \<Rightarrow> (exn + APIResponse) \<times> world" where
  "AsyncMaybeSingleRequestBuilder_execute fhrr b w =
     (case AsyncQueryRequestBuilder_execute fhrr b w of
        (Inr r, w') \<Rightarrow> (Inr r, w')
      | (Inl (APIError e), w') \<Rightarrow>
          (if zero_rows_signal e
           then (Inr (from_dict [(''data'', JNull), (''error'', JNull), (''count'', JNum 0)]), w')
           else (Inl UnboundLocalError, w'))
      | (Inl e, w') \<Rightarrow> (Inl e, w'))"

subsection \<open>AsyncQueryFactory\<close>

definition is_single :: "query_fields \<Rightarrow> world \<Rightarrow> bool" where
  "is_single f w =
     (headers_get (hdr_objs w (headers f)) ''Accept'' = Some ''application/vnd.pgrst.object+json'')"

definition is_maybe_single :: "query_fields \<Rightarrow> world \<Rightarrow> bool" where
  "is_maybe_single f w =
     (let cond =
        (headers_contains (hdr_objs w (headers f)) ''x-maybeSingle'' \<and>
         (case headers_getitem (hdr_objs w (headers f)) ''x-maybeSingle'' of
            None \<Rightarrow> False
          | Some v \<Rightarrow> lower v = ''true''))
      in is_single f w \<and> cond)"

text \<open>The two builder classes; \<^verbatim>\<open>execute\<close> is dispatched on the class.\<close>

datatype QueryRequestBuilder =
    AsyncQueryRequestBuilder query_fields
  | AsyncMaybeSingleRequestBuilder query_fields

definition request_builder :: "query_fields \<Rightarrow> world \<Rightarrow> QueryRequestBuilder" where
  "request_builder f w =
     (if is_maybe_single f w
      then AsyncMaybeSingleRequestBuilder
             \<lparr> path = path f, http_method = http_method f, headers = headers f,
               params = params f, json = json f \<rparr>
      else AsyncQueryRequestBuilder
             \<lparr> path = path f, http_method = http_method f, headers = headers f,
               params = params f, json = json f \<rparr>)"

fun QueryRequestBuilder_execute ::
  "(response \<Rightarrow> exn + APIResponse) \<Rightarrow> QueryRequestBuilder \<Rightarrow> world \<Rightarrow> (exn + APIResponse) \<times> world" where
  "QueryRequestBuilder_execute fhrr (AsyncQueryRequestBuilder b) w =
     AsyncQueryRequestBuilder_execute fhrr b w"
| "QueryRequestBuilder_execute fhrr (AsyncMaybeSingleRequestBuilder b) w =
     AsyncMaybeSingleRequestBuilder_execute fhrr b w"

definition AsyncQueryFactory_execute ::
  "(response \<Rightarrow> exn + APIResponse) \<Rightarrow> query_fields \<Rightarrow> world \<Rightarrow> (exn + APIResponse) \<times> world" where
  "AsyncQueryFactory_execute fhrr f w =
     QueryRequestBuilder_execute fhrr (request_builder f w) w"

subsection \<open>AsyncRequestBuilder\<close>

text \<open>
  Modelled from the spec: the enumerations \<^verbatim>\<open>CountMethod\<close> and \<^verbatim>\<open>ReturnMethod\<close> are
  missing from the sources; their members are written into the \<^verbatim>\<open>Prefer\<close> header by
  name.
\<close>

datatype CountMethod = exact | planned | estimated

datatype ReturnMethod = minimal | representation

fun CountMethod_str :: "CountMethod \<Rightarrow> string" where
  "CountMethod_str exact = ''exact''"
| "CountMethod_str planned = ''planned''"
| "CountMethod_str estimated = ''estimated''"

fun ReturnMethod_str :: "ReturnMethod \<Rightarrow> string" where
  "ReturnMethod_str minimal = ''minimal''"
| "ReturnMethod_str representation = ''representation''"

text \<open>
  Modelled from the spec: the \<^verbatim>\<open>Prefer\<close> tokens that the \<^verbatim>\<open>pre_\<close> functions of module
  \<^verbatim>\<open>base_request_builder\<close> (missing from the sources) combine, in the order count,
  return, resolution; the resolution token of an insert is
  \<^verbatim>\<open>resolution=merge-duplicates\<close>, present when \<^verbatim>\<open>upsert\<close> is set.
\<close>

definition prefer_tokens :: "CountMethod option \<Rightarrow> ReturnMethod \<Rightarrow> bool \<Rightarrow> string list" where
  "prefer_tokens cnt returning upsert =
     (case cnt of None \<Rightarrow> [] | Some c \<Rightarrow> [''count='' @ CountMethod_str c])
     @ [''return='' @ ReturnMethod_str returning]
     @ (if upsert then [''resolution=merge-duplicates''] else [])"

text \<open>
  Modelled from the spec: \<^verbatim>\<open>pre_delete\<close> (module \<^verbatim>\<open>base_request_builder\<close>) is missing
  from the sources. It returns a fresh tuple (method, params, headers, body): method
  DELETE, a new empty \<^verbatim>\<open>QueryParams\<close>, a new \<^verbatim>\<open>Headers\<close> holding the comma-joined
  \<^verbatim>\<open>Prefer\<close> tokens, and no body (the empty dictionary).
\<close>

definition pre_delete ::
  "CountMethod option \<Rightarrow> ReturnMethod \<Rightarrow> world \<Rightarrow> (RequestMethod \<times> nat \<times> nat \<times> json) \<times> world" where
  "pre_delete cnt returning w =
     (case new_QueryParams [] w of (p, w1) \<Rightarrow>
      case new_Headers [(''Prefer'', join '','' (prefer_tokens cnt returning False))] w1 of (h, w2) \<Rightarrow>
        ((DELETE, p, h, JObj []), w2))"

text \<open>
  Modelled from the spec: \<^verbatim>\<open>pre_insert\<close> (module \<^verbatim>\<open>base_request_builder\<close>) is missing
  from the sources. It returns a fresh tuple (method, params, headers, body): method
  POST, a new empty \<^verbatim>\<open>QueryParams\<close>, a new \<^verbatim>\<open>Headers\<close> holding the comma-joined
  \<^verbatim>\<open>Prefer\<close> tokens, and the rows as body.
\<close>

definition pre_insert ::
  "json \<Rightarrow> CountMethod option \<Rightarrow> ReturnMethod \<Rightarrow> bool \<Rightarrow> world
   \<Rightarrow> (RequestMethod \<times> nat \<times> nat \<times> json) \<times> world" where
  "pre_insert rows cnt returning upsert w =
     (case new_QueryParams [] w of (p, w1) \<Rightarrow>
      case new_Headers [(''Prefer'', join '','' (prefer_tokens cnt returning upsert))] w1 of (h, w2) \<Rightarrow>
        ((POST, p, h, rows), w2))"

text \<open>
  \<^verbatim>\<open>AsyncRequestBuilder\<close> stores the session and the path; \<^verbatim>\<open>insert\<close> and \<^verbatim>\<open>delete\<close> hand
  the tuple of the \<^verbatim>\<open>pre_\<close> function to a new factory. \<^verbatim>\<open>AsyncFilterRequestBuilder\<close> is
  a factory with the filter methods of a base class that is missing from the sources;
  its fields are the factory's.
\<close>

definition insert_rows ::
  "string \<Rightarrow> json \<Rightarrow> CountMethod option \<Rightarrow> ReturnMethod \<Rightarrow> bool \<Rightarrow> world \<Rightarrow> query_fields \<times> world" where
  "insert_rows self_path rows cnt returning upsert w =
     (case pre_insert rows cnt returning upsert w of
        ((method, ps, hs, js), w') \<Rightarrow>
          (\<lparr> path = self_path, http_method = method, headers = hs, params = ps, json = js \<rparr>, w'))"

definition delete ::
  "string \<Rightarrow> CountMethod option \<Rightarrow> ReturnMethod \<Rightarrow> world \<Rightarrow> query_fields \<times> world" where
  "delete self_path cnt returning w =
     (case pre_delete cnt returning w of
        ((method, ps, hs, js), w') \<Rightarrow>
          (\<lparr> path = self_path, http_method = method, headers = hs, params = ps, json = js \<rparr>, w'))"

text \<open>The (method, params, headers, body) a factory stands for in a given state.\<close>

definition assembled :: "query_fields \<Rightarrow> world \<Rightarrow> RequestMethod \<times> QueryParams \<times> Headers \<times> json" where
  "assembled f w = (http_method f, par_objs w (params f), hdr_objs w (headers f), json f)"

section \<open>The strategies of the specification\<close>

text \<open>
  The specification's reading of the headers, in its own words: single-row mode is the
  \<^verbatim>\<open>Accept\<close> header being \<^verbatim>\<open>application/vnd.pgrst.object+json\<close>; maybe-single mode is
  single-row mode with the marker header signalling it; every request has exactly one
  of three strategies. The marker is the header \<^verbatim>\<open>x-maybeSingle\<close> with a value that
  reads \<^verbatim>\<open>true\<close> in any letter case.
\<close>

datatype Strategy = Plain | Single | MaybeSingle

definition marker_signals :: "Headers \<Rightarrow> bool" where
  "marker_signals h =
     (case headers_getitem h ''x-maybeSingle'' of None \<Rightarrow> False | Some v \<Rightarrow> lower v = ''true'')"

definition spec_strategy :: "Headers \<Rightarrow> Strategy" where
  "spec_strategy h =
     (if headers_get h ''Accept'' = Some ''application/vnd.pgrst.object+json''
      then (if marker_signals h then MaybeSingle else Single)
      else Plain)"

section \<open>Concrete runs\<close>

text \<open>
  A state with one \<^verbatim>\<open>Headers\<close> object at address 0, an empty \<^verbatim>\<open>QueryParams\<close> at
  address 1, and a client that gives the same reply to every request; a SELECT chain
  over these two objects; and \<^verbatim>\<open>from_http_request_response\<close> with a stand-in for its
  building step that wraps the parsed body.
\<close>

definition ex_world :: "Headers \<Rightarrow> (exn + response) \<Rightarrow> world" where
  "ex_world hs reply =
     \<lparr> hdr_objs = (\<lambda>a. if a = 0 then hs else []), par_objs = (\<lambda>a. []), next_ref = 2,
       transport = (\<lambda>req. reply), sent = [] \<rparr>"

definition ex_chain :: query_fields where
  "ex_chain = \<lparr> path = ''/items'', http_method = GET, headers = 0, params = 1, json = JObj [] \<rparr>"

definition ex_build :: "response \<Rightarrow> json \<Rightarrow> exn + APIResponse" where
  "ex_build r body = Inr \<lparr> data = body, count = None, error = None \<rparr>"

definition ex_fhrr :: "response \<Rightarrow> exn + APIResponse" where
  "ex_fhrr = from_http_request_response ex_build"

definition plain_headers :: Headers where
  "plain_headers = [(''Accept'', ''application/json'')]"

definition single_headers :: Headers where
  "single_headers = [(''Accept'', ''application/vnd.pgrst.object+json'')]"

definition maybe_single_headers :: Headers where
  "maybe_single_headers =
     [(''Accept'', ''application/vnd.pgrst.object+json''), (''x-maybeSingle'', ''true'')]"

definition reply_of :: "int \<Rightarrow> string \<Rightarrow> json option \<Rightarrow> exn + response" where
  "reply_of status body js =
     Inr \<lparr> status_code = status, response_text = body, response_json = js,
           response_headers = [] \<rparr>"

definition zero_rows_reply :: "exn + response" where
  "zero_rows_reply =
     reply_of 406 ''{...}''
       (Some (JObj [(''message'', JStr ''JSON object requested, multiple (or no) rows returned''),
                    (''details'', JStr ''Results contain 0 rows, application/vnd.pgrst.object+json requires 1 row'')]))"

definition not_found_reply :: "exn + response" where
  "not_found_reply = reply_of 404 ''{...}'' (Some (JObj [(''message'', JStr ''not found'')]))"


section \<open>Auxiliary facts\<close>

lemmas ex_defs = ex_world_def ex_chain_def ex_fhrr_def reply_of_def plain_headers_def
  single_headers_def maybe_single_headers_def zero_rows_reply_def not_found_reply_def

lemmas hdr_defs = headers_get_def headers_getitem_def headers_values_def headers_contains_def
  lower_def lower_char_def

lemma str_contains_sublist: "str_contains n h = sublist n h"
  by (induction h) (auto simp: sublist_Cons_right)

lemma headers_values_empty:
  "headers_values h key = [] \<longleftrightarrow> \<not> headers_contains h key"
proof -
  have "headers_values h key = [] \<longleftrightarrow> (\<forall>kv \<in> set h. lower (fst kv) \<noteq> lower key)"
    by (simp add: headers_values_def filter_empty_conv)
  also have "\<dots> \<longleftrightarrow> \<not> headers_contains h key"
    by (simp add: headers_contains_def image_iff) metis
  finally show ?thesis .
qed

text \<open>\<^verbatim>\<open>key in h\<close> holds exactly when \<^verbatim>\<open>h[key]\<close> does not raise.\<close>

lemma headers_contains_getitem:
  "headers_contains h key \<longleftrightarrow> headers_getitem h key \<noteq> None"
proof (cases "headers_values h key")
  case Nil
  then show ?thesis
    using headers_values_empty [of h key] by (simp add: headers_getitem_def)
next
  case (Cons v vs)
  then show ?thesis
    using headers_values_empty [of h key] by (simp add: headers_getitem_def)
qed

lemma marker_cond:
  "(headers_contains h ''x-maybeSingle'' \<and>
     (case headers_getitem h ''x-maybeSingle'' of None \<Rightarrow> False | Some v \<Rightarrow> lower v = ''true''))
   = marker_signals h"
  by (auto simp: marker_signals_def headers_contains_getitem split: option.splits)

lemma is_maybe_single_iff:
  "is_maybe_single f w \<longleftrightarrow> is_single f w \<and> marker_signals (hdr_objs w (headers f))"
  unfolding is_maybe_single_def Let_def marker_cond by (rule refl)

lemma request_builder_cases:
  "request_builder f w =
     (if is_maybe_single f w then AsyncMaybeSingleRequestBuilder f else AsyncQueryRequestBuilder f)"
  by (simp add: request_builder_def)

lemma factory_execute_maybe:
  "is_maybe_single f w \<Longrightarrow>
   AsyncQueryFactory_execute fhrr f w = AsyncMaybeSingleRequestBuilder_execute fhrr f w"
  by (simp add: AsyncQueryFactory_execute_def request_builder_cases)

lemma factory_execute_other:
  "\<not> is_maybe_single f w \<Longrightarrow>
   AsyncQueryFactory_execute fhrr f w = AsyncQueryRequestBuilder_execute fhrr f w"
  by (simp add: AsyncQueryFactory_execute_def request_builder_cases)

lemma builder_execute_unfold:
  "AsyncQueryRequestBuilder_execute fhrr b w =
     ((case transport w (request_of b w) of Inl e \<Rightarrow> Inl e | Inr r \<Rightarrow> execute_try fhrr r),
      w\<lparr> sent := sent w @ [request_of b w] \<rparr>)"
  by (simp add: AsyncQueryRequestBuilder_execute_def session_request_def split: sum.splits)

lemma maybe_execute_snd:
  "snd (AsyncMaybeSingleRequestBuilder_execute fhrr b w) =
   snd (AsyncQueryRequestBuilder_execute fhrr b w)"
  by (simp add: AsyncMaybeSingleRequestBuilder_execute_def
           split: prod.splits sum.splits exn.splits)

lemma factory_execute_snd:
  "snd (AsyncQueryFactory_execute fhrr f w) = w\<lparr> sent := sent w @ [request_of f w] \<rparr>"
  by (cases "is_maybe_single f w")
     (simp_all add: factory_execute_maybe factory_execute_other maybe_execute_snd
        builder_execute_unfold)



text \<open>The sample chain in its three modes.\<close>

lemma ex_maybe_single: "is_maybe_single ex_chain (ex_world maybe_single_headers reply)"
  by (simp add: is_maybe_single_def is_single_def ex_defs hdr_defs)

lemma ex_single: "is_single ex_chain (ex_world single_headers reply)"
  by (simp add: is_single_def ex_defs hdr_defs)

lemma ex_single_not_maybe: "\<not> is_maybe_single ex_chain (ex_world single_headers reply)"
  by (simp add: is_maybe_single_def is_single_def ex_defs hdr_defs)

lemma ex_plain_not_single: "\<not> is_single ex_chain (ex_world plain_headers reply)"
  by (simp add: is_single_def ex_defs hdr_defs)

lemma ex_plain_not_maybe: "\<not> is_maybe_single ex_chain (ex_world plain_headers reply)"
  by (simp add: is_maybe_single_iff ex_plain_not_single)

lemma ex_transport: "transport (ex_world hs reply) req = reply"
  by (simp add: ex_world_def)


section \<open>Maybe-single execution\<close>

text \<open>
  Claim C1. In maybe-single mode, when the execution of the underlying builder fails with
  an \<^verbatim>\<open>APIError\<close> whose \<^verbatim>\<open>details\<close> contain \<^verbatim>\<open>Results contain 0 rows\<close>, the factory's
  \<^verbatim>\<open>execute\<close> raises nothing and returns the envelope with null data, no error and
  count 0.
\<close>

theorem maybe_single_zero_rows_is_empty_success:
  assumes "is_maybe_single f w"
    and "AsyncQueryRequestBuilder_execute fhrr f w = (Inl (APIError e), w')"
    and "details e = Some d"
    and "sublist ''Results contain 0 rows'' d"
  shows "AsyncQueryFactory_execute fhrr f w =
           (Inr \<lparr> data = JNull, count = Some 0, error = None \<rparr>, w')"
proof -
  from assms(4) have "d \<noteq> []" by auto
  with assms(3,4) have "zero_rows_signal e"
    by (simp add: zero_rows_signal_def str_contains_sublist)
  with assms(1,2) show ?thesis
    by (simp add: factory_execute_maybe AsyncMaybeSingleRequestBuilder_execute_def from_dict_def)
qed

text \<open>The zero-rows reply of PostgREST (status 406) in maybe-single mode.\<close>

theorem maybe_single_zero_rows_witness:
  "is_maybe_single ex_chain (ex_world maybe_single_headers zero_rows_reply)
   \<and> AsyncQueryRequestBuilder_execute ex_fhrr ex_chain (ex_world maybe_single_headers zero_rows_reply)
       = (Inl (APIError
            \<lparr> message = Some ''JSON object requested, multiple (or no) rows returned'',
              code = None, hint = None,
              details = Some ''Results contain 0 rows, application/vnd.pgrst.object+json requires 1 row'' \<rparr>),
          (ex_world maybe_single_headers zero_rows_reply)
            \<lparr> sent := [request_of ex_chain (ex_world maybe_single_headers zero_rows_reply)] \<rparr>)
   \<and> sublist ''Results contain 0 rows''
        ''Results contain 0 rows, application/vnd.pgrst.object+json requires 1 row''
   \<and> AsyncQueryFactory_execute ex_fhrr ex_chain (ex_world maybe_single_headers zero_rows_reply)
       = (Inr \<lparr> data = JNull, count = Some 0, error = None \<rparr>,
          (ex_world maybe_single_headers zero_rows_reply)
            \<lparr> sent := [request_of ex_chain (ex_world maybe_single_headers zero_rows_reply)] \<rparr>)"
proof -
  let ?w = "ex_world maybe_single_headers zero_rows_reply"
  let ?d = "''Results contain 0 rows, application/vnd.pgrst.object+json requires 1 row''"
  let ?e = "\<lparr> message = Some ''JSON object requested, multiple (or no) rows returned'',
              code = None, hint = None, details = Some ?d \<rparr>"
  have h1: "is_maybe_single ex_chain ?w" by (rule ex_maybe_single)
  have h2: "AsyncQueryRequestBuilder_execute ex_fhrr ex_chain ?w
              = (Inl (APIError ?e), ?w\<lparr> sent := [request_of ex_chain ?w] \<rparr>)"
    by (simp add: builder_execute_unfold execute_try_def raise_APIError_def APIError_raised_def APIError_init_def
          error_field_def ex_world_def zero_rows_reply_def reply_of_def)
  have h3: "details ?e = Some ?d" by simp
  have h4: "sublist ''Results contain 0 rows'' ?d"
    by (simp add: str_contains_sublist [symmetric])
  show ?thesis
    using maybe_single_zero_rows_is_empty_success [OF h1 h2 h3 h4] h1 h2 h4 by simp
qed

text \<open>
  Claim C2. In maybe-single mode, a 404 reply with the body \<^verbatim>\<open>{"message": "not found"}\<close>
  makes the underlying execution raise an \<^verbatim>\<open>APIError\<close> without details. The \<^verbatim>\<open>except\<close>
  block ends without re-raising it and \<^verbatim>\<open>return r\<close> reads a variable that was never
  assigned: the caller gets an \<^verbatim>\<open>UnboundLocalError\<close>, not the \<^verbatim>\<open>APIError\<close>.
\<close>

theorem maybe_single_not_found_is_unbound_local:
  "is_maybe_single ex_chain (ex_world maybe_single_headers not_found_reply)
   \<and> fst (AsyncQueryRequestBuilder_execute ex_fhrr ex_chain
            (ex_world maybe_single_headers not_found_reply))
       = Inl (APIError \<lparr> message = Some ''not found'', code = None, hint = None, details = None \<rparr>)
   \<and> fst (AsyncQueryFactory_execute ex_fhrr ex_chain
            (ex_world maybe_single_headers not_found_reply))
       = Inl UnboundLocalError"
proof -
  let ?w = "ex_world maybe_single_headers not_found_reply"
  have h1: "is_maybe_single ex_chain ?w" by (rule ex_maybe_single)
  have h2: "fst (AsyncQueryRequestBuilder_execute ex_fhrr ex_chain ?w)
              = Inl (APIError \<lparr> message = Some ''not found'', code = None, hint = None,
                                 details = None \<rparr>)"
    by (simp add: builder_execute_unfold execute_try_def raise_APIError_def APIError_raised_def APIError_init_def
          error_field_def ex_world_def not_found_reply_def reply_of_def)
  have h3: "fst (AsyncQueryFactory_execute ex_fhrr ex_chain ?w) = Inl UnboundLocalError"
    unfolding factory_execute_maybe [OF h1]
    by (simp add: AsyncMaybeSingleRequestBuilder_execute_def
          builder_execute_unfold execute_try_def raise_APIError_def APIError_raised_def APIError_init_def
          error_field_def zero_rows_signal_def ex_world_def not_found_reply_def reply_of_def)
  from h1 h2 h3 show ?thesis by blast
qed

section \<open>Classification by status code\<close>




section \<open>Strategy selection\<close>

text \<open>
  Claim C4. Single-row mode is the \<^verbatim>\<open>Accept\<close> header being
  \<^verbatim>\<open>application/vnd.pgrst.object+json\<close>; maybe-single mode is single-row mode together
  with the marker header; each headers state has exactly one of the strategies Plain,
  Single, MaybeSingle, and the factory builds the maybe-single builder for MaybeSingle
  and the plain builder for the other two.
\<close>

theorem strategy_from_headers:
  "(is_single f w \<longleftrightarrow>
      headers_get (hdr_objs w (headers f)) ''Accept'' = Some ''application/vnd.pgrst.object+json'')
   \<and> (is_maybe_single f w \<longleftrightarrow> is_single f w \<and> marker_signals (hdr_objs w (headers f)))
   \<and> (spec_strategy (hdr_objs w (headers f)) = Plain \<longleftrightarrow> \<not> is_single f w)
   \<and> (spec_strategy (hdr_objs w (headers f)) = Single \<longleftrightarrow> is_single f w \<and> \<not> is_maybe_single f w)
   \<and> (spec_strategy (hdr_objs w (headers f)) = MaybeSingle \<longleftrightarrow> is_maybe_single f w)
   \<and> request_builder f w =
        (case spec_strategy (hdr_objs w (headers f)) of
           MaybeSingle \<Rightarrow> AsyncMaybeSingleRequestBuilder f
         | Single \<Rightarrow> AsyncQueryRequestBuilder f
         | Plain \<Rightarrow> AsyncQueryRequestBuilder f)"
  by (simp add: is_maybe_single_iff request_builder_cases spec_strategy_def is_single_def)

text \<open>
  The three strategies on the sample chain; the marker is read whatever the letter case
  of its key and value.
\<close>

theorem strategy_from_headers_witness:
  "spec_strategy plain_headers = Plain
   \<and> spec_strategy single_headers = Single
   \<and> spec_strategy maybe_single_headers = MaybeSingle
   \<and> spec_strategy [(''accept'', ''application/vnd.pgrst.object+json''), (''X-MAYBESINGLE'', ''True'')]
       = MaybeSingle
   \<and> spec_strategy [(''x-maybeSingle'', ''true'')] = Plain
   \<and> request_builder ex_chain (ex_world plain_headers zero_rows_reply)
       = AsyncQueryRequestBuilder ex_chain
   \<and> request_builder ex_chain (ex_world single_headers zero_rows_reply)
       = AsyncQueryRequestBuilder ex_chain
   \<and> request_builder ex_chain (ex_world maybe_single_headers zero_rows_reply)
       = AsyncMaybeSingleRequestBuilder ex_chain"
proof -
  have s1: "spec_strategy plain_headers = Plain"
    by (simp add: spec_strategy_def marker_signals_def plain_headers_def hdr_defs)
  have s2: "spec_strategy single_headers = Single"
    by (simp add: spec_strategy_def marker_signals_def single_headers_def hdr_defs)
  have s3: "spec_strategy maybe_single_headers = MaybeSingle"
    by (simp add: spec_strategy_def marker_signals_def maybe_single_headers_def hdr_defs)
  have s4: "spec_strategy [(''accept'', ''application/vnd.pgrst.object+json''),
                           (''X-MAYBESINGLE'', ''True'')] = MaybeSingle"
    by (simp add: spec_strategy_def marker_signals_def hdr_defs)
  have s5: "spec_strategy [(''x-maybeSingle'', ''true'')] = Plain"
    by (simp add: spec_strategy_def marker_signals_def hdr_defs)
  have h: "hdr_objs (ex_world hs zero_rows_reply) (headers ex_chain) = hs" for hs
    by (simp add: ex_world_def ex_chain_def)
  show ?thesis
    using strategy_from_headers [of ex_chain "ex_world plain_headers zero_rows_reply"]
      strategy_from_headers [of ex_chain "ex_world single_headers zero_rows_reply"]
      strategy_from_headers [of ex_chain "ex_world maybe_single_headers zero_rows_reply"]
      s1 s2 s3 s4 s5
    by (simp add: h)
qed

section \<open>Bodies that are not JSON\<close>




section \<open>What is handed to the HTTP client\<close>

text \<open>
  Claim C6, amended. Every execution hands exactly one request to the HTTP client, and
  its headers are the chain's \<^verbatim>\<open>Headers\<close> object as it stands, nothing removed; in
  maybe-single mode they therefore contain the marker header \<^verbatim>\<open>x-maybeSingle\<close>.
\<close>

theorem marker_header_is_sent:
  "sent (snd (AsyncQueryFactory_execute fhrr f w)) = sent w @ [request_of f w]
   \<and> req_headers (request_of f w) = hdr_objs w (headers f)
   \<and> (is_maybe_single f w \<longrightarrow> headers_contains (req_headers (request_of f w)) ''x-maybeSingle'')"
proof -
  have "headers_contains (hdr_objs w (headers f)) ''x-maybeSingle''" if "is_maybe_single f w"
    using that by (simp add: is_maybe_single_def)
  then show ?thesis
    by (simp add: factory_execute_snd request_of_def)
qed

theorem marker_header_is_sent_witness:
  "is_maybe_single ex_chain (ex_world maybe_single_headers not_found_reply)
   \<and> sent (snd (AsyncQueryFactory_execute ex_fhrr ex_chain
                  (ex_world maybe_single_headers not_found_reply)))
       = [\<lparr> req_method = GET, req_path = ''/items'', req_json = JObj [], req_params = [],
            req_headers = [(''Accept'', ''application/vnd.pgrst.object+json''),
                           (''x-maybeSingle'', ''true'')] \<rparr>]
   \<and> headers_contains
        (req_headers (request_of ex_chain (ex_world maybe_single_headers not_found_reply)))
        ''x-maybeSingle''"
proof -
  have req: "request_of ex_chain (ex_world maybe_single_headers not_found_reply)
      = \<lparr> req_method = GET, req_path = ''/items'', req_json = JObj [], req_params = [],
          req_headers = [(''Accept'', ''application/vnd.pgrst.object+json''),
                         (''x-maybeSingle'', ''true'')] \<rparr>"
    by (simp add: request_of_def ex_world_def ex_chain_def maybe_single_headers_def)
  have none: "sent (ex_world maybe_single_headers not_found_reply) = []"
    by (simp add: ex_world_def)
  have mode: "is_maybe_single ex_chain (ex_world maybe_single_headers not_found_reply)"
    by (rule ex_maybe_single)
  note run = marker_header_is_sent [of ex_fhrr ex_chain "ex_world maybe_single_headers not_found_reply"]
  from run have log: "sent (snd (AsyncQueryFactory_execute ex_fhrr ex_chain
                  (ex_world maybe_single_headers not_found_reply)))
      = sent (ex_world maybe_single_headers not_found_reply)
        @ [request_of ex_chain (ex_world maybe_single_headers not_found_reply)]"
    by blast
  from run mode have marker: "headers_contains
        (req_headers (request_of ex_chain (ex_world maybe_single_headers not_found_reply)))
        ''x-maybeSingle''"
    by blast
  from log have "sent (snd (AsyncQueryFactory_execute ex_fhrr ex_chain
                  (ex_world maybe_single_headers not_found_reply)))
       = [\<lparr> req_method = GET, req_path = ''/items'', req_json = JObj [], req_params = [],
            req_headers = [(''Accept'', ''application/vnd.pgrst.object+json''),
                           (''x-maybeSingle'', ''true'')] \<rparr>]"
    by (simp add: req none)
  with mode marker show ?thesis by blast
qed

text \<open>
  Claim C6 as stated fails: the request that the maybe-single chain sends for a
  zero-rows lookup carries the marker header.
\<close>

theorem marker_header_forwarded_counterexample:
  "is_maybe_single ex_chain (ex_world maybe_single_headers zero_rows_reply)
   \<and> headers_contains
        (req_headers (last (sent (snd (AsyncQueryFactory_execute ex_fhrr ex_chain
                                         (ex_world maybe_single_headers zero_rows_reply))))))
        ''x-maybeSingle''"
proof -
  have "headers_contains
        (req_headers (last (sent (snd (AsyncQueryFactory_execute ex_fhrr ex_chain
                                         (ex_world maybe_single_headers zero_rows_reply))))))
        ''x-maybeSingle''"
    by (simp add: factory_execute_snd request_of_def ex_world_def ex_chain_def
          maybe_single_headers_def hdr_defs)
  with ex_maybe_single [of zero_rows_reply] show ?thesis by blast
qed

section \<open>Fields of the error\<close>

text \<open>
  Claim C7. A 404 response with the body \<^verbatim>\<open>{"message": "not found"}\<close> makes \<^verbatim>\<open>execute\<close>
  raise the error with message \<^verbatim>\<open>not found\<close> and no code, details or hint. In general,
  for a response outside 200..299 whose body is a JSON object, each field whose key the
  object lacks is absent in the raised error, and a field the server reports as the
  empty string is kept as the empty string, so the two can be told apart.
\<close>

theorem error_fields_absent_when_missing:
  assumes "transport w (request_of b w) = Inr r"
    and "\<not> (200 \<le> status_code r \<and> status_code r \<le> 299)"
    and "response_json r = Some (JObj kvs)"
  shows "fst (AsyncQueryRequestBuilder_execute fhrr b w) = Inl (APIError (APIError_init kvs))
       \<and> (status_code r = 404 \<and> kvs = [(''message'', JStr ''not found'')] \<longrightarrow>
            APIError_init kvs
              = \<lparr> message = Some ''not found'', code = None, hint = None, details = None \<rparr>)
       \<and> (''message'' \<notin> fst ` set kvs \<longrightarrow> message (APIError_init kvs) = None)
       \<and> (''code'' \<notin> fst ` set kvs \<longrightarrow> code (APIError_init kvs) = None)
       \<and> (''details'' \<notin> fst ` set kvs \<longrightarrow> details (APIError_init kvs) = None)
       \<and> (''hint'' \<notin> fst ` set kvs \<longrightarrow> hint (APIError_init kvs) = None)
       \<and> (map_of kvs ''details'' = Some (JStr []) \<longrightarrow>
            details (APIError_init kvs) = Some [])"
proof -
  have raised: "fst (AsyncQueryRequestBuilder_execute fhrr b w)
                  = Inl (APIError (APIError_init kvs))"
    using assms
    by (auto simp: builder_execute_unfold execute_try_def raise_APIError_def APIError_raised_def)
  have missing: "error_field kvs key = None" if "key \<notin> fst ` set kvs" for key
    using that by (simp add: error_field_def map_of_eq_None_iff [THEN iffD2])
  have example: "APIError_init [(''message'', JStr ''not found'')]
      = \<lparr> message = Some ''not found'', code = None, hint = None, details = None \<rparr>"
    by (simp add: APIError_init_def error_field_def)
  have kept: "details (APIError_init kvs) = Some []"
    if "map_of kvs ''details'' = Some (JStr [])"
    using that by (simp add: APIError_init_def error_field_def)
  from raised missing example kept show ?thesis
    by (simp add: APIError_init_def)
qed

theorem error_fields_absent_when_missing_witness:
  "transport (ex_world plain_headers not_found_reply)
       (request_of ex_chain (ex_world plain_headers not_found_reply))
     = Inr \<lparr> status_code = 404, response_text = ''{...}'',
             response_json = Some (JObj [(''message'', JStr ''not found'')]),
             response_headers = [] \<rparr>
   \<and> \<not> (200 \<le> (404::int) \<and> (404::int) \<le> 299)
   \<and> fst (AsyncQueryRequestBuilder_execute ex_fhrr ex_chain (ex_world plain_headers not_found_reply))
       = Inl (APIError \<lparr> message = Some ''not found'', code = None, hint = None, details = None \<rparr>)"
proof -
  let ?r = "\<lparr> status_code = 404, response_text = ''{...}'',
             response_json = Some (JObj [(''message'', JStr ''not found'')]),
             response_headers = [] \<rparr>"
  have h1: "transport (ex_world plain_headers not_found_reply)
       (request_of ex_chain (ex_world plain_headers not_found_reply)) = Inr ?r"
    by (simp add: ex_transport not_found_reply_def reply_of_def)
  have h2: "\<not> (200 \<le> status_code ?r \<and> status_code ?r \<le> 299)" by simp
  have h3: "response_json ?r = Some (JObj [(''message'', JStr ''not found'')])" by simp
  show ?thesis
    using error_fields_absent_when_missing [OF h1 h2 h3, of ex_fhrr] h1 by simp
qed

section \<open>Single and plain execution\<close>

text \<open>
  Claim C10. Whenever the headers are not classified as maybe-single, single-row mode
  without the marker included, the factory builds the plain builder and its \<^verbatim>\<open>execute\<close>
  is the plain \<^verbatim>\<open>execute\<close>: the outcome is computed from the client's reply alone, so two
  such chains that get the same reply end the same way, whatever their \<^verbatim>\<open>Accept\<close>
  header.
\<close>

theorem single_runs_plain_execute:
  assumes "\<not> is_maybe_single f w"
  shows "request_builder f w = AsyncQueryRequestBuilder f
       \<and> AsyncQueryFactory_execute fhrr f w = AsyncQueryRequestBuilder_execute fhrr f w
       \<and> fst (AsyncQueryFactory_execute fhrr f w)
           = (case transport w (request_of f w) of Inl e \<Rightarrow> Inl e | Inr r \<Rightarrow> execute_try fhrr r)
       \<and> (\<forall>f' w'. \<not> is_maybe_single f' w'
              \<and> transport w' (request_of f' w') = transport w (request_of f w)
            \<longrightarrow> fst (AsyncQueryFactory_execute fhrr f' w') = fst (AsyncQueryFactory_execute fhrr f w))"
  using assms
  by (simp add: request_builder_cases factory_execute_other builder_execute_unfold)

text \<open>
  The zero-rows reply in single-row mode and in plain mode: the same propagated error.
\<close>

theorem single_runs_plain_execute_witness:
  "is_single ex_chain (ex_world single_headers zero_rows_reply)
   \<and> \<not> is_maybe_single ex_chain (ex_world single_headers zero_rows_reply)
   \<and> \<not> is_single ex_chain (ex_world plain_headers zero_rows_reply)
   \<and> AsyncQueryFactory_execute ex_fhrr ex_chain (ex_world single_headers zero_rows_reply)
       = AsyncQueryRequestBuilder_execute ex_fhrr ex_chain (ex_world single_headers zero_rows_reply)
   \<and> fst (AsyncQueryFactory_execute ex_fhrr ex_chain (ex_world plain_headers zero_rows_reply))
       = fst (AsyncQueryFactory_execute ex_fhrr ex_chain (ex_world single_headers zero_rows_reply))
   \<and> fst (AsyncQueryFactory_execute ex_fhrr ex_chain (ex_world single_headers zero_rows_reply))
       = Inl (APIError
            \<lparr> message = Some ''JSON object requested, multiple (or no) rows returned'',
              code = None, hint = None,
              details = Some ''Results contain 0 rows, application/vnd.pgrst.object+json requires 1 row'' \<rparr>)"
proof -
  have h: "\<not> is_maybe_single ex_chain (ex_world single_headers zero_rows_reply)"
    by (rule ex_single_not_maybe)
  have p: "\<not> is_maybe_single ex_chain (ex_world plain_headers zero_rows_reply)"
    by (rule ex_plain_not_maybe)
  have reply: "execute_try ex_fhrr
      \<lparr> status_code = 406, response_text = ''{...}'',
        response_json = Some (JObj
          [(''message'', JStr ''JSON object requested, multiple (or no) rows returned''),
           (''details'', JStr ''Results contain 0 rows, application/vnd.pgrst.object+json requires 1 row'')]),
        response_headers = [] \<rparr>
      = Inl (APIError
            \<lparr> message = Some ''JSON object requested, multiple (or no) rows returned'',
              code = None, hint = None,
              details = Some ''Results contain 0 rows, application/vnd.pgrst.object+json requires 1 row'' \<rparr>)"
    by (simp add: execute_try_def raise_APIError_def APIError_raised_def APIError_init_def error_field_def)
  have same_reply: "transport (ex_world plain_headers zero_rows_reply)
        (request_of ex_chain (ex_world plain_headers zero_rows_reply))
      = transport (ex_world single_headers zero_rows_reply)
        (request_of ex_chain (ex_world single_headers zero_rows_reply))"
    by (simp add: ex_transport)
  note run = single_runs_plain_execute [OF h, of ex_fhrr]
  from run have a: "AsyncQueryFactory_execute ex_fhrr ex_chain (ex_world single_headers zero_rows_reply)
       = AsyncQueryRequestBuilder_execute ex_fhrr ex_chain (ex_world single_headers zero_rows_reply)"
    by blast
  from run p same_reply
  have b: "fst (AsyncQueryFactory_execute ex_fhrr ex_chain (ex_world plain_headers zero_rows_reply))
       = fst (AsyncQueryFactory_execute ex_fhrr ex_chain (ex_world single_headers zero_rows_reply))"
    by blast
  from run have "fst (AsyncQueryFactory_execute ex_fhrr ex_chain (ex_world single_headers zero_rows_reply))
       = (case transport (ex_world single_headers zero_rows_reply)
                 (request_of ex_chain (ex_world single_headers zero_rows_reply)) of
            Inl e \<Rightarrow> Inl e | Inr r \<Rightarrow> execute_try ex_fhrr r)"
    by blast
  then have c: "fst (AsyncQueryFactory_execute ex_fhrr ex_chain (ex_world single_headers zero_rows_reply))
       = Inl (APIError
            \<lparr> message = Some ''JSON object requested, multiple (or no) rows returned'',
              code = None, hint = None,
              details = Some ''Results contain 0 rows, application/vnd.pgrst.object+json requires 1 row'' \<rparr>)"
    by (simp add: ex_transport zero_rows_reply_def reply_of_def reply)
  from a b c h ex_single [of zero_rows_reply] ex_plain_not_single [of zero_rows_reply]
  show ?thesis by blast
qed

section \<open>Request assembly\<close>

lemma pre_delete_result:
  "pre_delete cnt returning w =
     ((DELETE, next_ref w, Suc (next_ref w), JObj []),
      w\<lparr> par_objs := (par_objs w)(next_ref w := []),
         hdr_objs := (hdr_objs w)
           (Suc (next_ref w) := [(''Prefer'', join '','' (prefer_tokens cnt returning False))]),
         next_ref := Suc (Suc (next_ref w)) \<rparr>)"
  by (simp add: pre_delete_def new_QueryParams_def new_Headers_def)

lemma pre_insert_result:
  "pre_insert rows cnt returning upsert w =
     ((POST, next_ref w, Suc (next_ref w), rows),
      w\<lparr> par_objs := (par_objs w)(next_ref w := []),
         hdr_objs := (hdr_objs w)
           (Suc (next_ref w) := [(''Prefer'', join '','' (prefer_tokens cnt returning upsert))]),
         next_ref := Suc (Suc (next_ref w)) \<rparr>)"
  by (simp add: pre_insert_def new_QueryParams_def new_Headers_def)

lemma delete_result:
  assumes "delete p cnt returning w = (f, w')"
  shows "f = \<lparr> path = p, http_method = DELETE, headers = Suc (next_ref w),
               params = next_ref w, json = JObj [] \<rparr>"
    and "next_ref w' = Suc (Suc (next_ref w))"
    and "hdr_objs w' = (hdr_objs w)
           (Suc (next_ref w) := [(''Prefer'', join '','' (prefer_tokens cnt returning False))])"
    and "par_objs w' = (par_objs w)(next_ref w := [])"
  using assms by (auto simp: delete_def pre_delete_result)

lemma insert_rows_result:
  assumes "insert_rows p rows cnt returning upsert w = (f, w')"
  shows "f = \<lparr> path = p, http_method = POST, headers = Suc (next_ref w),
               params = next_ref w, json = rows \<rparr>"
    and "next_ref w' = Suc (Suc (next_ref w))"
    and "hdr_objs w' = (hdr_objs w)
           (Suc (next_ref w) := [(''Prefer'', join '','' (prefer_tokens cnt returning upsert))])"
    and "par_objs w' = (par_objs w)(next_ref w := [])"
  using assms by (auto simp: insert_rows_def pre_insert_result)

lemma delete_fst:
  "fst (delete p cnt returning w) =
     \<lparr> path = p, http_method = DELETE, headers = Suc (next_ref w),
       params = next_ref w, json = JObj [] \<rparr>"
  by (simp add: delete_def pre_delete_result)

lemma delete_next_ref: "next_ref (snd (delete p cnt returning w)) = Suc (Suc (next_ref w))"
  by (simp add: delete_def pre_delete_result)

lemma insert_rows_fst:
  "fst (insert_rows p rows cnt returning upsert w) =
     \<lparr> path = p, http_method = POST, headers = Suc (next_ref w),
       params = next_ref w, json = rows \<rparr>"
  by (simp add: insert_rows_def pre_insert_result)

lemma insert_rows_next_ref:
  "next_ref (snd (insert_rows p rows cnt returning upsert w)) = Suc (Suc (next_ref w))"
  by (simp add: insert_rows_def pre_insert_result)

lemma insert_rows_headers:
  "hdr_objs (snd (insert_rows p rows cnt returning upsert w)) (Suc (next_ref w))
     = [(''Prefer'', join '','' (prefer_tokens cnt returning upsert))]"
  by (simp add: insert_rows_def pre_insert_result)

text \<open>
  Claim C8. Two consecutive calls of \<^verbatim>\<open>delete\<close> with the same arguments, from any state,
  assemble the same (method, params, headers, body): the second call leaves what the
  first assembled untouched and assembles the same again. With \<^verbatim>\<open>count=exact\<close> and
  \<^verbatim>\<open>returning=minimal\<close> that tuple is DELETE, no params, the one header
  \<^verbatim>\<open>Prefer: count=exact,return=minimal\<close>, and the empty body.
\<close>

theorem delete_twice_same_assembly:
  assumes "delete p cnt returning w = (f1, w1)"
    and "delete p cnt returning w1 = (f2, w2)"
  shows "assembled f2 w2 = assembled f1 w1
       \<and> assembled f1 w2 = assembled f1 w1
       \<and> (cnt = Some exact \<and> returning = minimal \<longrightarrow>
            assembled f1 w1 = (DELETE, [], [(''Prefer'', ''count=exact,return=minimal'')], JObj []))"
proof -
  note first = delete_result [OF assms(1)]
  note second = delete_result [OF assms(2)]
  have a1: "assembled f1 w1
      = (DELETE, [], [(''Prefer'', join '','' (prefer_tokens cnt returning False))], JObj [])"
    by (simp add: assembled_def first)
  have a2: "assembled f2 w2
      = (DELETE, [], [(''Prefer'', join '','' (prefer_tokens cnt returning False))], JObj [])"
    by (simp add: assembled_def second)
  have kept: "assembled f1 w2 = assembled f1 w1"
    by (simp add: assembled_def first second)
  have tokens: "join '','' (prefer_tokens (Some exact) minimal False) = ''count=exact,return=minimal''"
    by (simp add: prefer_tokens_def)
  from a1 a2 kept tokens show ?thesis by auto
qed

text \<open>A state in which nothing has been allocated or sent yet.\<close>

theorem delete_twice_same_assembly_witness:
  "delete ''/items'' (Some exact) minimal (ex_world [] not_found_reply)
     = (\<lparr> path = ''/items'', http_method = DELETE, headers = 3, params = 2, json = JObj [] \<rparr>,
        snd (delete ''/items'' (Some exact) minimal (ex_world [] not_found_reply)))
   \<and> delete ''/items'' (Some exact) minimal
       (snd (delete ''/items'' (Some exact) minimal (ex_world [] not_found_reply)))
     = (\<lparr> path = ''/items'', http_method = DELETE, headers = 5, params = 4, json = JObj [] \<rparr>,
        snd (delete ''/items'' (Some exact) minimal
          (snd (delete ''/items'' (Some exact) minimal (ex_world [] not_found_reply)))))
   \<and> assembled \<lparr> path = ''/items'', http_method = DELETE, headers = 5, params = 4, json = JObj [] \<rparr>
        (snd (delete ''/items'' (Some exact) minimal
          (snd (delete ''/items'' (Some exact) minimal (ex_world [] not_found_reply)))))
     = (DELETE, [], [(''Prefer'', ''count=exact,return=minimal'')], JObj [])"
proof -
  let ?w = "ex_world [] not_found_reply"
  let ?w1 = "snd (delete ''/items'' (Some exact) minimal ?w)"
  let ?w2 = "snd (delete ''/items'' (Some exact) minimal ?w1)"
  let ?f1 = "\<lparr> path = ''/items'', http_method = DELETE, headers = 3, params = 2, json = JObj [] \<rparr>"
  let ?f2 = "\<lparr> path = ''/items'', http_method = DELETE, headers = 5, params = 4, json = JObj [] \<rparr>"
  have n: "next_ref ?w = 2" by (simp add: ex_world_def)
  have h1: "delete ''/items'' (Some exact) minimal ?w = (?f1, ?w1)"
    by (simp add: prod_eq_iff delete_fst n)
  have n1: "next_ref ?w1 = 4"
    by (simp add: delete_next_ref n)
  have h2: "delete ''/items'' (Some exact) minimal ?w1 = (?f2, ?w2)"
    by (simp add: prod_eq_iff delete_fst n1)
  from delete_twice_same_assembly [OF h1 h2]
  have "assembled ?f2 ?w2 = (DELETE, [], [(''Prefer'', ''count=exact,return=minimal'')], JObj [])"
    by simp
  with h1 h2 show ?thesis by blast
qed

text \<open>
  Claim C9. After \<^verbatim>\<open>insert\<close> with \<^verbatim>\<open>upsert=True\<close> on one builder, and whatever is then done to the
  headers of that chain, an \<^verbatim>\<open>insert\<close> of the same rows with \<^verbatim>\<open>upsert=False\<close> gets a
  \<^verbatim>\<open>Headers\<close> object of its own: it holds the one \<^verbatim>\<open>Prefer\<close> header of a non-upsert
  insert, the same as an insert in any other state would get, and later changes to the
  first chain's headers do not reach it.
\<close>

theorem insert_chains_share_no_headers:
  assumes "insert_rows p1 rows cnt returning True w = (f1, w1)"
    and "insert_rows p2 rows cnt returning False (w1\<lparr> hdr_objs := (hdr_objs w1)(headers f1 := h1) \<rparr>)
           = (f2, w2)"
  shows "headers f2 \<noteq> headers f1
       \<and> hdr_objs w2 (headers f2) = [(''Prefer'', join '','' (prefer_tokens cnt returning False))]
       \<and> (\<forall>p0 w0 f0 w0'. insert_rows p0 rows cnt returning False w0 = (f0, w0') \<longrightarrow>
             hdr_objs w0' (headers f0) = hdr_objs w2 (headers f2))
       \<and> (\<forall>h2. hdr_objs (w2\<lparr> hdr_objs := (hdr_objs w2)(headers f1 := h2) \<rparr>) (headers f2)
                = hdr_objs w2 (headers f2))
       \<and> ''resolution=merge-duplicates'' \<notin> set (prefer_tokens cnt returning False)"
proof -
  note first = insert_rows_result [OF assms(1)]
  note second = insert_rows_result [OF assms(2)]
  have distinct: "headers f2 \<noteq> headers f1"
    by (simp add: first second)
  have fresh: "hdr_objs w2 (headers f2)
      = [(''Prefer'', join '','' (prefer_tokens cnt returning False))]"
    by (simp add: second)
  have anywhere: "hdr_objs w0' (headers f0) = hdr_objs w2 (headers f2)"
    if "insert_rows p0 rows cnt returning False w0 = (f0, w0')" for p0 w0 f0 w0'
    using insert_rows_result [OF that] fresh by simp
  have untouched: "hdr_objs (w2\<lparr> hdr_objs := (hdr_objs w2)(headers f1 := h2) \<rparr>) (headers f2)
      = hdr_objs w2 (headers f2)" for h2
    using distinct by simp
  have tokens: "''resolution=merge-duplicates'' \<notin> set (prefer_tokens cnt returning False)"
    by (cases cnt; cases returning) (auto simp: prefer_tokens_def)
  from distinct fresh anywhere untouched tokens show ?thesis by blast
qed

text \<open>
  An upsert whose chain is then switched to maybe-single mode, followed by a plain
  insert of the same row.
\<close>

theorem insert_chains_share_no_headers_witness:
  "insert_rows ''/items'' (JObj [(''id'', JNum 1)]) None representation True
       (ex_world [] not_found_reply)
     = (\<lparr> path = ''/items'', http_method = POST, headers = 3, params = 2,
          json = JObj [(''id'', JNum 1)] \<rparr>,
        snd (insert_rows ''/items'' (JObj [(''id'', JNum 1)]) None representation True
               (ex_world [] not_found_reply)))
   \<and> hdr_objs (snd (insert_rows ''/items'' (JObj [(''id'', JNum 1)]) None representation True
                      (ex_world [] not_found_reply))) 3
     = [(''Prefer'', ''return=representation,resolution=merge-duplicates'')]
   \<and> fst (insert_rows ''/items'' (JObj [(''id'', JNum 1)]) None representation False
       ((snd (insert_rows ''/items'' (JObj [(''id'', JNum 1)]) None representation True
               (ex_world [] not_found_reply)))
        \<lparr> hdr_objs := (hdr_objs (snd (insert_rows ''/items'' (JObj [(''id'', JNum 1)]) None
                                        representation True (ex_world [] not_found_reply))))
                      (3 := maybe_single_headers) \<rparr>))
     = \<lparr> path = ''/items'', http_method = POST, headers = 5, params = 4,
          json = JObj [(''id'', JNum 1)] \<rparr>
   \<and> hdr_objs (snd (insert_rows ''/items'' (JObj [(''id'', JNum 1)]) None representation False
       ((snd (insert_rows ''/items'' (JObj [(''id'', JNum 1)]) None representation True
               (ex_world [] not_found_reply)))
        \<lparr> hdr_objs := (hdr_objs (snd (insert_rows ''/items'' (JObj [(''id'', JNum 1)]) None
                                        representation True (ex_world [] not_found_reply))))
                      (3 := maybe_single_headers) \<rparr>))) 5
     = [(''Prefer'', ''return=representation'')]"
proof -
  let ?rows = "JObj [(''id'', JNum 1)]"
  let ?w = "ex_world [] not_found_reply"
  let ?w1 = "snd (insert_rows ''/items'' ?rows None representation True ?w)"
  let ?w1' = "?w1\<lparr> hdr_objs := (hdr_objs ?w1)(3 := maybe_single_headers) \<rparr>"
  let ?w2 = "snd (insert_rows ''/items'' ?rows None representation False ?w1')"
  let ?f1 = "\<lparr> path = ''/items'', http_method = POST, headers = 3, params = 2, json = ?rows \<rparr>"
  let ?f2 = "\<lparr> path = ''/items'', http_method = POST, headers = 5, params = 4, json = ?rows \<rparr>"
  have n: "next_ref ?w = 2" by (simp add: ex_world_def)
  have h1: "insert_rows ''/items'' ?rows None representation True ?w = (?f1, ?w1)"
    by (simp add: prod_eq_iff insert_rows_fst n)
  have "hdr_objs ?w1 (Suc (next_ref ?w))
      = [(''Prefer'', join '','' (prefer_tokens None representation True))]"
    by (rule insert_rows_headers)
  then have upsert_headers: "hdr_objs ?w1 3
      = [(''Prefer'', ''return=representation,resolution=merge-duplicates'')]"
    by (simp add: n prefer_tokens_def)
  have n1: "next_ref ?w1' = 4"
    by (simp add: insert_rows_next_ref n)
  have h2: "insert_rows ''/items'' ?rows None representation False
              (?w1\<lparr> hdr_objs := (hdr_objs ?w1)(headers ?f1 := maybe_single_headers) \<rparr>)
            = (?f2, ?w2)"
    using n1 by (simp add: prod_eq_iff insert_rows_fst)
  from insert_chains_share_no_headers [OF h1 h2]
  have "hdr_objs ?w2 (headers ?f2)
      = [(''Prefer'', join '','' (prefer_tokens None representation False))]"
    by blast
  then have plain_headers: "hdr_objs ?w2 5 = [(''Prefer'', ''return=representation'')]"
    by (simp add: prefer_tokens_def)
  have f2: "fst (insert_rows ''/items'' ?rows None representation False ?w1') = ?f2"
    using n1 by (simp add: insert_rows_fst)
  from h1 upsert_headers f2 plain_headers show ?thesis by blast
qed

end
